theory Spec2Isabelle
  imports Complex_Main "HOL-Library.Char_ord" "HOL-Library.List_Lexorder"
begin

section \<open>Python values shared by the embedding\<close>

text \<open>
  Exceptions are values. \<open>RuntimeError\<close> carries the message the source gives it and
  \<open>KeyError\<close> the missing key; the exceptions raised inside pandas, scikit-learn and
  the interpreter carry no message here. \<open>SklearnNotFittedError\<close> is scikit-learn's
  \<open>sklearn.exceptions.NotFittedError\<close>, raised by an estimator that was not fitted; the
  repository defines no exception class of its own, and its own not-fitted error is the
  \<open>RuntimeError\<close> of \<open>_check_fitted\<close>.
\<close>

datatype error =
    RuntimeError string
  | KeyError string
  | TypeError
  | ValueError
  | AttributeError
  | FileNotFoundError
  | SklearnNotFittedError

text \<open>
  A Python \<open>dict\<close> with its insertion order: an association list whose keys are
  distinct. \<open>d[k] = v\<close> overwrites in place when the key is present and appends
  otherwise; \<open>d[k]\<close> raises \<open>KeyError\<close> on a missing key.
\<close>

type_synonym ('k, 'v) dict = "('k \<times> 'v) list"

fun dict_set :: "('k, 'v) dict \<Rightarrow> 'k \<Rightarrow> 'v \<Rightarrow> ('k, 'v) dict" where
  "dict_set [] k v = [(k, v)]"
| "dict_set ((k', v') # d) k v = (if k' = k then (k, v) # d else (k', v') # dict_set d k v)"

definition dict_get :: "(string, 'v) dict \<Rightarrow> string \<Rightarrow> error + 'v" where
  "dict_get d k = (case map_of d k of None \<Rightarrow> Inl (KeyError k) | Some v \<Rightarrow> Inr v)"

definition keys :: "('k, 'v) dict \<Rightarrow> 'k list" where
  "keys d = map fst d"

section \<open>Evaluator (core/model/evaluator.py)\<close>

text \<open>
  Class labels are integers, label vectors are lists. The four scikit-learn metrics are
  written out with exact real arithmetic in place of floating point:
  \<^item> \<open>accuracy_score\<close>: the share of positions where the two vectors agree;
  \<^item> \<open>precision_score\<close>, \<open>recall_score\<close>, \<open>f1_score\<close> with \<open>average="weighted"\<close>:
    the per-class score (0 where its denominator is 0) averaged over the sorted union of
    the labels with the class supports in \<open>y_true\<close> as weights;
  \<^item> \<open>confusion_matrix\<close>: rows are true labels, columns predicted labels, both in the
    sorted order of the union of the labels.
  Vectors of different lengths are rejected with \<open>ValueError\<close>. Labels are integers
  here; the metrics use only their equality and their order. On empty vectors the
  accuracy is numpy's mean of an empty array, a NaN, which the real-valued metric does
  not have: what is stated about the accuracy is stated for non-empty vectors.
\<close>

type_synonym labels = "int list"

definition unique_labels :: "labels \<Rightarrow> labels \<Rightarrow> int list" where
  "unique_labels y_true y_pred = sort (remdups (y_true @ y_pred))"

definition count_pairs :: "(int \<times> int \<Rightarrow> bool) \<Rightarrow> labels \<Rightarrow> labels \<Rightarrow> nat" where
  "count_pairs P y_true y_pred = length (filter P (zip y_true y_pred))"

definition true_pos :: "labels \<Rightarrow> labels \<Rightarrow> int \<Rightarrow> nat" where
  "true_pos y_true y_pred c = count_pairs (\<lambda>(t, p). t = c \<and> p = c) y_true y_pred"

definition pred_sum :: "labels \<Rightarrow> labels \<Rightarrow> int \<Rightarrow> nat" where
  "pred_sum y_true y_pred c = count_pairs (\<lambda>(t, p). p = c) y_true y_pred"

definition true_sum :: "labels \<Rightarrow> labels \<Rightarrow> int \<Rightarrow> nat" where
  "true_sum y_true y_pred c = count_pairs (\<lambda>(t, p). t = c) y_true y_pred"

definition ratio :: "nat \<Rightarrow> nat \<Rightarrow> real" where
  "ratio a b = (if b = 0 then 0 else real a / real b)"

definition class_precision :: "labels \<Rightarrow> labels \<Rightarrow> int \<Rightarrow> real" where
  "class_precision y_true y_pred c = ratio (true_pos y_true y_pred c) (pred_sum y_true y_pred c)"

definition class_recall :: "labels \<Rightarrow> labels \<Rightarrow> int \<Rightarrow> real" where
  "class_recall y_true y_pred c = ratio (true_pos y_true y_pred c) (true_sum y_true y_pred c)"

definition class_f1 :: "labels \<Rightarrow> labels \<Rightarrow> int \<Rightarrow> real" where
  "class_f1 y_true y_pred c =
     ratio (2 * true_pos y_true y_pred c) (pred_sum y_true y_pred c + true_sum y_true y_pred c)"

definition weighted_average :: "(int \<Rightarrow> real) \<Rightarrow> labels \<Rightarrow> labels \<Rightarrow> real" where
  "weighted_average score y_true y_pred =
     (let ls = unique_labels y_true y_pred;
          total = sum_list (map (\<lambda>c. real (true_sum y_true y_pred c)) ls)
      in if total = 0 then 0
         else sum_list (map (\<lambda>c. real (true_sum y_true y_pred c) * score c) ls) / total)"

definition accuracy_score :: "labels \<Rightarrow> labels \<Rightarrow> real" where
  "accuracy_score y_true y_pred =
     ratio (count_pairs (\<lambda>(t, p). t = p) y_true y_pred) (length y_true)"

definition precision_score :: "labels \<Rightarrow> labels \<Rightarrow> real" where
  "precision_score y_true y_pred = weighted_average (class_precision y_true y_pred) y_true y_pred"

definition recall_score :: "labels \<Rightarrow> labels \<Rightarrow> real" where
  "recall_score y_true y_pred = weighted_average (class_recall y_true y_pred) y_true y_pred"

definition f1_score :: "labels \<Rightarrow> labels \<Rightarrow> real" where
  "f1_score y_true y_pred = weighted_average (class_f1 y_true y_pred) y_true y_pred"

definition confusion_matrix :: "labels \<Rightarrow> labels \<Rightarrow> nat list list" where
  "confusion_matrix y_true y_pred =
     (let ls = unique_labels y_true y_pred
      in map (\<lambda>i. map (\<lambda>j. count_pairs (\<lambda>(t, p). t = i \<and> p = j) y_true y_pred) ls) ls)"

text \<open>
  \<open>ModelEvaluator.evaluate\<close> builds the dict of the four metrics, writes two log
  records (the metrics, then the confusion matrix) and returns the dict. The log is the
  second component of the result.
\<close>

type_synonym metrics = "(string, real) dict"

datatype log_record = LogMetrics metrics | LogConfusionMatrix "nat list list"

definition evaluate :: "labels \<Rightarrow> labels \<Rightarrow> error + (metrics \<times> log_record list)" where
  "evaluate y_true y_pred =
     (if length y_true \<noteq> length y_pred then Inl ValueError
      else
        let metrics =
              [(''accuracy'', accuracy_score y_true y_pred),
               (''precision'', precision_score y_true y_pred),
               (''recall'', recall_score y_true y_pred),
               (''f1_score'', f1_score y_true y_pred)]
        in Inr (metrics, [LogMetrics metrics, LogConfusionMatrix (confusion_matrix y_true y_pred)]))"

section \<open>Comparator (core/model/comparator.py)\<close>

text \<open>
  A trainer is used through \<open>train\<close> followed by \<open>predict\<close>. \<open>train\<close> either raises or
  leaves the trainer holding a fitted model; \<open>predict\<close> then applies that model, and may
  raise as well. The feature tables are opaque to the comparator (type \<open>'x\<close>).
\<close>

type_synonym 'x model = "'x \<Rightarrow> error + labels"

type_synonym 'x trainer = "'x \<Rightarrow> labels \<Rightarrow> 'x \<Rightarrow> labels \<Rightarrow> error + 'x model"

record comparator =
  results :: "(string, metrics) dict"

definition ModelComparator_init :: comparator where
  "ModelComparator_init = \<lparr>results = []\<rparr>"

text \<open>The body of the \<open>for\<close> loop for one trainer: train, predict, evaluate.\<close>

definition run_trainer :: "'x trainer \<Rightarrow> 'x \<Rightarrow> 'x \<Rightarrow> labels \<Rightarrow> labels \<Rightarrow> error + metrics" where
  "run_trainer trainer X_train X_valid y_train y_valid =
     (case trainer X_train y_train X_valid y_valid of
        Inl e \<Rightarrow> Inl e
      | Inr model \<Rightarrow>
          (case model X_valid of
             Inl e \<Rightarrow> Inl e
           | Inr preds \<Rightarrow>
               (case evaluate y_valid preds of
                  Inl e \<Rightarrow> Inl e
                | Inr (metrics, records) \<Rightarrow> Inr metrics)))"

text \<open>
  The loop stores each result under the trainer's name as it goes; an exception leaves
  the results stored so far in place.
\<close>

fun compare_loop ::
  "comparator \<Rightarrow> (string, 'x trainer) dict \<Rightarrow> 'x \<Rightarrow> 'x \<Rightarrow> labels \<Rightarrow> labels
     \<Rightarrow> error option \<times> comparator" where
  "compare_loop self [] X_train X_valid y_train y_valid = (None, self)"
| "compare_loop self ((name, trainer) # rest) X_train X_valid y_train y_valid =
     (case run_trainer trainer X_train X_valid y_train y_valid of
        Inl e \<Rightarrow> (Some e, self)
      | Inr metrics \<Rightarrow>
          compare_loop (self\<lparr>results := dict_set (results self) name metrics\<rparr>) rest
            X_train X_valid y_train y_valid)"

text \<open>
  Python's \<open>max(iterable, key=f)\<close>: the keys are computed in iteration order, the
  current best is replaced only by a strictly greater key, and an empty iterable raises
  \<open>ValueError\<close>.
\<close>

fun max_loop :: "'a \<times> real \<Rightarrow> ('a \<times> real) list \<Rightarrow> 'a" where
  "max_loop (best, kb) [] = best"
| "max_loop (best, kb) ((x, kx) # rest) =
     (if kx > kb then max_loop (x, kx) rest else max_loop (best, kb) rest)"

fun with_keys :: "('a \<Rightarrow> error + real) \<Rightarrow> 'a list \<Rightarrow> error + ('a \<times> real) list" where
  "with_keys key [] = Inr []"
| "with_keys key (x # xs) =
     (case key x of
        Inl e \<Rightarrow> Inl e
      | Inr k \<Rightarrow> (case with_keys key xs of Inl e \<Rightarrow> Inl e | Inr ps \<Rightarrow> Inr ((x, k) # ps)))"

definition py_max :: "('a \<Rightarrow> error + real) \<Rightarrow> 'a list \<Rightarrow> error + 'a" where
  "py_max key xs =
     (case xs of
        [] \<Rightarrow> Inl ValueError
      | _ \<Rightarrow> (case with_keys key xs of
                Inl e \<Rightarrow> Inl e
              | Inr [] \<Rightarrow> Inl ValueError
              | Inr (p # ps) \<Rightarrow> Inr (max_loop p ps)))"

text \<open>The key function \<open>lambda k: self.results[k]["f1_score"]\<close>.\<close>

definition f1_key :: "comparator \<Rightarrow> string \<Rightarrow> error + real" where
  "f1_key self k =
     (case dict_get (results self) k of
        Inl e \<Rightarrow> Inl e
      | Inr metrics \<Rightarrow> dict_get metrics ''f1_score'')"

definition compare ::
  "comparator \<Rightarrow> (string, 'x trainer) dict \<Rightarrow> 'x \<Rightarrow> 'x \<Rightarrow> labels \<Rightarrow> labels
     \<Rightarrow> (error + string \<times> metrics) \<times> comparator" where
  "compare self trainers X_train X_valid y_train y_valid =
     (case compare_loop self trainers X_train X_valid y_train y_valid of
        (Some e, self') \<Rightarrow> (Inl e, self')
      | (None, self') \<Rightarrow>
          (case py_max (f1_key self') (keys (results self')) of
             Inl e \<Rightarrow> (Inl e, self')
           | Inr best_model_name \<Rightarrow>
               (case dict_get (results self') best_model_name of
                  Inl e \<Rightarrow> (Inl e, self')
                | Inr m \<Rightarrow> (Inr (best_model_name, m), self'))))"

section \<open>Tables\<close>

text \<open>
  A numeric cell is a float: a finite value (idealised as a real: no rounding, overflow
  or underflow), an infinity or NaN. A cell of an object or categorical column is a
  string or missing (NaN). A \<open>DataFrame\<close> is a dict from column names to columns, in
  column order; all its columns have the same length.
\<close>

datatype pyfloat = Fin real | PInf | NInf | NaN

datatype column = NumCol "pyfloat list" | CatCol "string option list"

type_synonym frame = "(string, column) dict"

fun col_len :: "column \<Rightarrow> nat" where
  "col_len (NumCol xs) = length xs"
| "col_len (CatCol xs) = length xs"

fun nrows :: "frame \<Rightarrow> nat" where
  "nrows [] = 0"
| "nrows ((name, c) # rest) = col_len c"

text \<open>Float arithmetic with the IEEE special cases; the divisor below is a square, so a
  zero divisor is \<open>+0\<close>.\<close>

fun float_sq :: "pyfloat \<Rightarrow> pyfloat" where
  "float_sq (Fin x) = Fin (x ^ 2)"
| "float_sq PInf = PInf"
| "float_sq NInf = PInf"
| "float_sq NaN = NaN"

fun float_div :: "pyfloat \<Rightarrow> pyfloat \<Rightarrow> pyfloat" where
  "float_div (Fin a) (Fin b) =
     (if b \<noteq> 0 then Fin (a / b) else if a > 0 then PInf else if a < 0 then NInf else NaN)"
| "float_div (Fin a) PInf = Fin 0"
| "float_div (Fin a) NInf = Fin 0"
| "float_div PInf (Fin b) = (if b \<ge> 0 then PInf else NInf)"
| "float_div NInf (Fin b) = (if b \<ge> 0 then NInf else PInf)"
| "float_div _ _ = NaN"

fun is_inf :: "pyfloat \<Rightarrow> bool" where
  "is_inf PInf = True"
| "is_inf NInf = True"
| "is_inf _ = False"

subsection \<open>Derived features\<close>

text \<open>
  \<open>data["Weight"] / (data["Height"] ** 2)\<close>: the two columns are looked up left to
  right (\<open>KeyError\<close> when absent); arithmetic on a column of strings raises
  \<open>TypeError\<close>. (In a table without rows pandas has no cell to operate on; the model
  does not single that table out, and the pipeline rejects it in any case.)
\<close>

definition bmi_series :: "frame \<Rightarrow> error + pyfloat list" where
  "bmi_series data =
     (case dict_get data ''Weight'' of
        Inl e \<Rightarrow> Inl e
      | Inr weight \<Rightarrow>
          (case dict_get data ''Height'' of
             Inl e \<Rightarrow> Inl e
           | Inr height \<Rightarrow>
               (case height of
                  CatCol hs \<Rightarrow> Inl TypeError
                | NumCol hs \<Rightarrow>
                    (case weight of
                       CatCol ws \<Rightarrow> Inl TypeError
                     | NumCol ws \<Rightarrow> Inr (map2 float_div ws (map float_sq hs))))))"

text \<open>
  \<open>pd.cut(data["Age"], bins=[0, 18, 30, 50, 100], labels=[...])\<close>: the intervals are
  open on the left and closed on the right; a value outside \<open>(0, 100]\<close> or a NaN
  gives a missing cell.
\<close>

definition age_group :: "pyfloat \<Rightarrow> string option" where
  "age_group a =
     (case a of
        Fin x \<Rightarrow>
          (if 0 < x \<and> x \<le> 18 then Some ''Teen''
           else if 18 < x \<and> x \<le> 30 then Some ''Young''
           else if 30 < x \<and> x \<le> 50 then Some ''Adult''
           else if 50 < x \<and> x \<le> 100 then Some ''Senior''
           else None)
      | _ \<Rightarrow> None)"

definition cut_age :: "frame \<Rightarrow> error + string option list" where
  "cut_age data =
     (case dict_get data ''Age'' of
        Inl e \<Rightarrow> Inl e
      | Inr (CatCol xs) \<Rightarrow> Inl TypeError
      | Inr (NumCol xs) \<Rightarrow> Inr (map age_group xs))"

text \<open>
  The two assignments \<open>data["BMI"] = ...\<close> and \<open>data["Age_Group"] = ...\<close> that open
  \<open>fit\<close> and both \<open>transform\<close> methods. They write into the caller's table, so the
  table is returned too, also when the second assignment raises after the first one
  was made.
\<close>

definition add_derived :: "frame \<Rightarrow> error option \<times> frame" where
  "add_derived data =
     (case bmi_series data of
        Inl e \<Rightarrow> (Some e, data)
      | Inr bmi \<Rightarrow>
          (let data1 = dict_set data ''BMI'' (NumCol bmi)
           in case cut_age data1 of
                Inl e \<Rightarrow> (Some e, data1)
              | Inr groups \<Rightarrow> (None, dict_set data1 ''Age_Group'' (CatCol groups))))"

subsection \<open>Column selection by dtype\<close>

fun is_numeric :: "column \<Rightarrow> bool" where
  "is_numeric (NumCol xs) = True"
| "is_numeric (CatCol xs) = False"

definition select_number :: "frame \<Rightarrow> string list" where
  "select_number data = map fst (filter (\<lambda>(name, c). is_numeric c) data)"

definition select_not_number :: "frame \<Rightarrow> string list" where
  "select_not_number data = map fst (filter (\<lambda>(name, c). \<not> is_numeric c) data)"

section \<open>The scikit-learn pipeline\<close>

text \<open>
  The \<open>ColumnTransformer\<close> of \<open>fit\<close> holds a \<open>StandardScaler\<close> for the numeric
  columns and a \<open>OneHotEncoder(handle_unknown="ignore", sparse_output=False)\<close> for the
  categorical ones. Until its own \<open>fit\<close> has returned it is unfitted and knows only the
  two column lists; afterwards it also holds, for each numeric column, the mean and the
  scale, and for each categorical column, the categories seen.
\<close>

record column_transformer =
  num_cols :: "string list"
  scalers :: "(pyfloat \<times> pyfloat) list"
  cat_cols :: "string list"
  categories :: "string option list list"

datatype pipeline = Unfitted "string list" "string list" | Fitted column_transformer

subsection \<open>StandardScaler\<close>

text \<open>
  Mean and population standard deviation of the column, NaN cells left out; a column
  of zero variance gets scale 1, and a column with no value at all gets NaN for both.
  A scaled cell is \<open>(x - mean) / scale\<close>, NaN staying NaN.
\<close>

fun finite_values :: "pyfloat list \<Rightarrow> real list" where
  "finite_values [] = []"
| "finite_values (Fin x # xs) = x # finite_values xs"
| "finite_values (_ # xs) = finite_values xs"

definition fit_scaler :: "pyfloat list \<Rightarrow> pyfloat \<times> pyfloat" where
  "fit_scaler xs =
     (let vs = finite_values xs
      in if vs = [] then (NaN, NaN)
         else
           let m = sum_list vs / real (length vs);
               var = sum_list (map (\<lambda>v. (v - m) ^ 2) vs) / real (length vs)
           in (Fin m, Fin (if var = 0 then 1 else sqrt var)))"

fun scale_value :: "pyfloat \<times> pyfloat \<Rightarrow> pyfloat \<Rightarrow> pyfloat" where
  "scale_value (Fin m, Fin s) (Fin x) = Fin ((x - m) / s)"
| "scale_value _ _ = NaN"

subsection \<open>OneHotEncoder\<close>

text \<open>
  The categories of a column are its distinct strings in sorted order, followed by the
  missing value when the column has one. The encoder writes one 0/1 column per
  category; a cell that is none of the categories gets 0 in all of them. The output
  column of category \<open>v\<close> of column \<open>c\<close> is named \<open>c_v\<close>.
\<close>

fun present_values :: "string option list \<Rightarrow> string list" where
  "present_values [] = []"
| "present_values (Some s # xs) = s # present_values xs"
| "present_values (None # xs) = present_values xs"

definition fit_categories :: "string option list \<Rightarrow> string option list" where
  "fit_categories xs =
     map Some (sort (remdups (present_values xs))) @ (if None \<in> set xs then [None] else [])"

definition indicator :: "string option \<Rightarrow> string option \<Rightarrow> pyfloat" where
  "indicator v x = (if x = v then Fin 1 else Fin 0)"

definition one_hot :: "string option list \<Rightarrow> string option list \<Rightarrow> pyfloat list list" where
  "one_hot cats xs = map (\<lambda>v. map (indicator v) xs) cats"

definition category_str :: "string option \<Rightarrow> string" where
  "category_str v = (case v of Some s \<Rightarrow> s | None \<Rightarrow> ''nan'')"

definition one_hot_names :: "string \<Rightarrow> string option list \<Rightarrow> string list" where
  "one_hot_names c cats = map (\<lambda>v. c @ ''_'' @ category_str v) cats"

subsection \<open>ColumnTransformer\<close>

text \<open>
  The columns are selected by name. scikit-learn raises \<open>ValueError\<close> when a selected
  column is missing, when the table has no row, when a numeric cell is infinite, and
  when a column does not have the kind (numeric or not) it is selected for.
\<close>

fun numeric_column :: "frame \<Rightarrow> string \<Rightarrow> error + pyfloat list" where
  "numeric_column data c =
     (case map_of data c of
        Some (NumCol xs) \<Rightarrow> (if list_ex is_inf xs then Inl ValueError else Inr xs)
      | _ \<Rightarrow> Inl ValueError)"

fun categorical_column :: "frame \<Rightarrow> string \<Rightarrow> error + string option list" where
  "categorical_column data c =
     (case map_of data c of
        Some (CatCol xs) \<Rightarrow> Inr xs
      | _ \<Rightarrow> Inl ValueError)"

fun collect :: "(error + 'a) list \<Rightarrow> error + 'a list" where
  "collect [] = Inr []"
| "collect (Inl e # rs) = Inl e"
| "collect (Inr x # rs) = (case collect rs of Inl e \<Rightarrow> Inl e | Inr xs \<Rightarrow> Inr (x # xs))"

definition ct_fit :: "string list \<Rightarrow> string list \<Rightarrow> frame \<Rightarrow> error + column_transformer" where
  "ct_fit numeric_cols categorical_cols data =
     (if nrows data = 0 \<and> (numeric_cols \<noteq> [] \<or> categorical_cols \<noteq> []) then Inl ValueError
      else
        case collect (map (numeric_column data) numeric_cols) of
          Inl e \<Rightarrow> Inl e
        | Inr nums \<Rightarrow>
            (case collect (map (categorical_column data) categorical_cols) of
               Inl e \<Rightarrow> Inl e
             | Inr cats \<Rightarrow>
                 Inr \<lparr>num_cols = numeric_cols, scalers = map fit_scaler nums,
                      cat_cols = categorical_cols, categories = map fit_categories cats\<rparr>))"

text \<open>The transformed array, as the list of its columns: the scaled numeric columns,
  then the one-hot columns of each categorical column in turn.\<close>

definition ct_transform :: "column_transformer \<Rightarrow> frame \<Rightarrow> error + pyfloat list list" where
  "ct_transform ct data =
     (if nrows data = 0 \<and> (num_cols ct \<noteq> [] \<or> cat_cols ct \<noteq> []) then Inl ValueError
      else
        case collect (map (numeric_column data) (num_cols ct)) of
          Inl e \<Rightarrow> Inl e
        | Inr nums \<Rightarrow>
            (case collect (map (categorical_column data) (cat_cols ct)) of
               Inl e \<Rightarrow> Inl e
             | Inr cats \<Rightarrow>
                 Inr (map2 (\<lambda>p xs. map (scale_value p) xs) (scalers ct) nums
                      @ concat (map2 one_hot (categories ct) cats))))"

text \<open>
  \<open>named_transformers_["cat"].get_feature_names_out(categorical_cols)\<close>: with an empty
  column list the encoder was never fitted and the call raises scikit-learn's
  \<open>NotFittedError\<close>.
\<close>

definition get_feature_names_out :: "column_transformer \<Rightarrow> error + string list" where
  "get_feature_names_out ct =
     (if cat_cols ct = [] then Inl SklearnNotFittedError
      else Inr (concat (map2 one_hot_names (cat_cols ct) (categories ct))))"

text \<open>\<open>self.pipeline.transform(data)\<close> on whatever \<open>self.pipeline\<close> holds.\<close>

fun pipeline_transform :: "pipeline option \<Rightarrow> frame \<Rightarrow> error + pyfloat list list" where
  "pipeline_transform None data = Inl AttributeError"
| "pipeline_transform (Some (Unfitted ns cs)) data = Inl SklearnNotFittedError"
| "pipeline_transform (Some (Fitted ct)) data = ct_transform ct data"

text \<open>
  \<open>pd.DataFrame(array, columns=names)\<close>: the columns of the array under the given
  names, \<open>ValueError\<close> when their number differs from the width of the array; without
  \<open>columns\<close> the labels are the positions \<open>0, 1, ...\<close>.
\<close>

datatype label = Name string | Pos nat

type_synonym out_frame = "(label \<times> pyfloat list) list"

definition DataFrame :: "pyfloat list list \<Rightarrow> string list option \<Rightarrow> error + out_frame" where
  "DataFrame array columns =
     (case columns of
        None \<Rightarrow> Inr (zip (map Pos [0 ..< length array]) array)
      | Some names \<Rightarrow>
          (if length names \<noteq> length array then Inl ValueError
           else Inr (zip (map Name names) array)))"

section \<open>Preprocessors (core/preprocessing)\<close>

record settings =
  target_column :: string

definition default_settings :: settings where
  "default_settings = \<lparr>target_column = ''NObeyesdad''\<rparr>"

record preprocessor =
  fitted :: bool
  pipeline :: "pipeline option"

record train_preprocessor = preprocessor +
  feature_names :: "string list option"

record inference_preprocessor = preprocessor +
  preprocessor_path :: string

definition TrainPreprocessor_init :: train_preprocessor where
  "TrainPreprocessor_init = \<lparr>fitted = False, pipeline = None, feature_names = None\<rparr>"

definition InferencePreprocessor_init :: "string \<Rightarrow> inference_preprocessor" where
  "InferencePreprocessor_init path = \<lparr>fitted = False, pipeline = None, preprocessor_path = path\<rparr>"

definition check_fitted :: "'a preprocessor_scheme \<Rightarrow> error option" where
  "check_fitted self =
     (if \<not> fitted self
      then Some (RuntimeError ''Preprocessor must be fitted before calling transform().'')
      else None)"

subsection \<open>TrainPreprocessor\<close>

text \<open>
  \<open>fit\<close> returns nothing; the result is the exception if one was raised, the
  preprocessor and the caller's table as the call leaves them.
\<close>

definition fit :: "settings \<Rightarrow> train_preprocessor \<Rightarrow> frame \<Rightarrow> error option \<times> train_preprocessor \<times> frame" where
  "fit cfg self data0 =
     (case add_derived data0 of
        (Some e, data) \<Rightarrow> (Some e, self, data)
      | (None, data) \<Rightarrow>
          (let numeric_cols = remove1 (target_column cfg) (select_number data);
               categorical_cols = remove1 (target_column cfg) (select_not_number data);
               self1 = self\<lparr>pipeline := Some (Unfitted numeric_cols categorical_cols)\<rparr>
           in case ct_fit numeric_cols categorical_cols data of
                Inl e \<Rightarrow> (Some e, self1, data)
              | Inr ct \<Rightarrow>
                  (let self2 = self1\<lparr>pipeline := Some (Fitted ct)\<rparr>
                   in case get_feature_names_out ct of
                        Inl e \<Rightarrow> (Some e, self2, data)
                      | Inr names \<Rightarrow>
                          (None,
                           self2\<lparr>feature_names := Some (numeric_cols @ names), fitted := True\<rparr>,
                           data))))"

definition transform :: "train_preprocessor \<Rightarrow> frame \<Rightarrow> (error + out_frame) \<times> frame" where
  "transform self data0 =
     (case check_fitted self of
        Some e \<Rightarrow> (Inl e, data0)
      | None \<Rightarrow>
          (case add_derived data0 of
             (Some e, data) \<Rightarrow> (Inl e, data)
           | (None, data) \<Rightarrow>
               (case pipeline_transform (pipeline self) data of
                  Inl e \<Rightarrow> (Inl e, data)
                | Inr transformed_array \<Rightarrow>
                    (DataFrame transformed_array (feature_names self), data))))"

text \<open>
  The file system maps a path to the object \<open>joblib.dump\<close> wrote there: the value of
  \<open>self.pipeline\<close>, which is \<open>None\<close> for a preprocessor that was never fitted.
  Writing is taken to succeed; reading a path nothing was written to raises
  \<open>FileNotFoundError\<close>.
\<close>

type_synonym filesystem = "string \<rightharpoonup> pipeline option"

definition save :: "train_preprocessor \<Rightarrow> string \<Rightarrow> filesystem \<Rightarrow> filesystem" where
  "save self path fs = fs(path \<mapsto> pipeline self)"

definition load :: "train_preprocessor \<Rightarrow> string \<Rightarrow> filesystem \<Rightarrow> error + train_preprocessor" where
  "load self path fs =
     (case fs path of
        None \<Rightarrow> Inl FileNotFoundError
      | Some obj \<Rightarrow> Inr (self\<lparr>pipeline := obj, fitted := True\<rparr>))"

subsection \<open>InferencePreprocessor\<close>

text \<open>\<open>fit\<close> and \<open>save\<close> only write a warning to the log.\<close>

definition inference_fit :: "inference_preprocessor \<Rightarrow> frame \<Rightarrow> error option \<times> inference_preprocessor \<times> frame" where
  "inference_fit self data = (None, self, data)"

definition inference_transform :: "inference_preprocessor \<Rightarrow> frame \<Rightarrow> (error + out_frame) \<times> frame" where
  "inference_transform self data0 =
     (case check_fitted self of
        Some e \<Rightarrow> (Inl e, data0)
      | None \<Rightarrow>
          (case add_derived data0 of
             (Some e, data) \<Rightarrow> (Inl e, data)
           | (None, data) \<Rightarrow>
               (case pipeline_transform (pipeline self) data of
                  Inl e \<Rightarrow> (Inl e, data)
                | Inr transformed_array \<Rightarrow> (DataFrame transformed_array None, data))))"

definition inference_save :: "inference_preprocessor \<Rightarrow> string \<Rightarrow> filesystem \<Rightarrow> filesystem" where
  "inference_save self path fs = fs"

text \<open>\<open>path or self.preprocessor_path\<close>: an absent or empty \<open>path\<close> falls back on the
  path given to the constructor.\<close>

definition inference_load ::
  "inference_preprocessor \<Rightarrow> string option \<Rightarrow> filesystem \<Rightarrow> error + inference_preprocessor" where
  "inference_load self path fs =
     (let preprocessor_file =
            (case path of None \<Rightarrow> preprocessor_path self
             | Some p \<Rightarrow> if p = [] then preprocessor_path self else p)
      in case fs preprocessor_file of
           None \<Rightarrow> Inl FileNotFoundError
         | Some obj \<Rightarrow> Inr (self\<lparr>pipeline := obj, fitted := True\<rparr>))"

section \<open>The column order fixed at fit time\<close>

text \<open>
  The cells of a named column of a table, by kind; the numeric and the categorical
  columns of the table \<open>fit\<close> was given (with its derived columns, the label left
  out), in table order; and, from these, the names and the contents the output of
  \<open>transform\<close> is expected to have: the numeric columns in fit-time order, each
  scaled with the parameters learned from the fit-time table, followed by the one-hot
  columns of each categorical column in the order of the categories learned at fit
  time.
\<close>

definition num_values :: "frame \<Rightarrow> string \<Rightarrow> pyfloat list" where
  "num_values data c = (case map_of data c of Some (NumCol xs) \<Rightarrow> xs | _ \<Rightarrow> [])"

definition cat_values :: "frame \<Rightarrow> string \<Rightarrow> string option list" where
  "cat_values data c = (case map_of data c of Some (CatCol xs) \<Rightarrow> xs | _ \<Rightarrow> [])"

definition fit_numeric_cols :: "settings \<Rightarrow> frame \<Rightarrow> string list" where
  "fit_numeric_cols cfg data = remove1 (target_column cfg) (select_number data)"

definition fit_categorical_cols :: "settings \<Rightarrow> frame \<Rightarrow> string list" where
  "fit_categorical_cols cfg data = remove1 (target_column cfg) (select_not_number data)"

definition expected_names :: "settings \<Rightarrow> frame \<Rightarrow> string list" where
  "expected_names cfg D =
     fit_numeric_cols cfg D
     @ concat (map (\<lambda>c. one_hot_names c (fit_categories (cat_values D c))) (fit_categorical_cols cfg D))"

definition expected_columns :: "settings \<Rightarrow> frame \<Rightarrow> frame \<Rightarrow> pyfloat list list" where
  "expected_columns cfg D A =
     map (\<lambda>c. map (scale_value (fit_scaler (num_values D c))) (num_values A c)) (fit_numeric_cols cfg D)
     @ concat (map (\<lambda>c. one_hot (fit_categories (cat_values D c)) (cat_values A c))
                 (fit_categorical_cols cfg D))"

section \<open>Inputs used in the examples\<close>

text \<open>The entries of a square matrix that are not on its diagonal, row by row.\<close>

definition off_diagonal :: "nat list list \<Rightarrow> nat list" where
  "off_diagonal m =
     concat (map (\<lambda>(i, row). map snd (filter (\<lambda>(j, x). j \<noteq> i) (enumerate 0 row))) (enumerate 0 m))"

text \<open>A trainer whose fitted model predicts a fixed label vector.\<close>

definition const_trainer :: "labels \<Rightarrow> unit trainer" where
  "const_trainer preds = (\<lambda>X_train y_train X_valid y_valid. Inr (\<lambda>X. Inr preds))"

definition y_valid_ex :: labels where
  "y_valid_ex = [0, 0, 0, 1, 1, 1]"

text \<open>Against \<open>y_valid_ex\<close> the weighted F1 scores of A, B, C and Z are 0.8, 0.9, 0.9 and 1.\<close>

definition trainers_ABC :: "(string, unit trainer) dict" where
  "trainers_ABC =
     [(''A'', const_trainer [0, 0, 2, 1, 1, 2]),
      (''B'', const_trainer [0, 0, 0, 1, 1, 2]),
      (''C'', const_trainer [0, 0, 0, 1, 2, 1])]"

definition trainers_Z :: "(string, unit trainer) dict" where
  "trainers_Z = [(''Z'', const_trainer [0, 0, 0, 1, 1, 1])]"

text \<open>The training table of the end-to-end scenario, and the same table without its
  label column.\<close>

definition table_ex :: frame where
  "table_ex =
     [(''Age'', NumCol [Fin 25, Fin 40]),
      (''Height'', NumCol [Fin 170, Fin 160]),
      (''Weight'', NumCol [Fin 70, Fin 95]),
      (''Gender'', CatCol [Some ''Male'', Some ''Female'']),
      (''NObeyesdad'', CatCol [Some ''Normal'', Some ''Obese''])]"

definition table_unlabelled :: frame where
  "table_unlabelled =
     [(''Age'', NumCol [Fin 25, Fin 40]),
      (''Height'', NumCol [Fin 170, Fin 160]),
      (''Weight'', NumCol [Fin 70, Fin 95]),
      (''Gender'', CatCol [Some ''Male'', Some ''Female''])]"

text \<open>The scenario's table with the heights in metres.\<close>

definition table_metres :: frame where
  "table_metres =
     [(''Age'', NumCol [Fin 25, Fin 40]),
      (''Height'', NumCol [Fin (17 / 10), Fin (16 / 10)]),
      (''Weight'', NumCol [Fin 70, Fin 95]),
      (''Gender'', CatCol [Some ''Male'', Some ''Female'']),
      (''NObeyesdad'', CatCol [Some ''Normal'', Some ''Obese''])]"

text \<open>Tables that lack one of the three raw columns.\<close>

definition table_no_weight :: frame where
  "table_no_weight =
     [(''Age'', NumCol [Fin 25, Fin 40]),
      (''Height'', NumCol [Fin 170, Fin 160]),
      (''NObeyesdad'', CatCol [Some ''Normal'', Some ''Obese''])]"

definition table_no_height :: frame where
  "table_no_height =
     [(''Age'', NumCol [Fin 25, Fin 40]),
      (''Weight'', NumCol [Fin 70, Fin 95]),
      (''NObeyesdad'', CatCol [Some ''Normal'', Some ''Obese''])]"

definition table_no_age :: frame where
  "table_no_age =
     [(''Height'', NumCol [Fin 170, Fin 160]),
      (''Weight'', NumCol [Fin 70, Fin 95]),
      (''NObeyesdad'', CatCol [Some ''Normal'', Some ''Obese''])]"

text \<open>A preprocessor fitted on the scenario's table, and a fresh one that loaded what
  the first one saved.\<close>

definition fitted_ex :: train_preprocessor where
  "fitted_ex = fst (snd (fit default_settings TrainPreprocessor_init table_ex))"

definition reloaded_ex :: "error + train_preprocessor" where
  "reloaded_ex = load TrainPreprocessor_init ''prep.joblib'' (save fitted_ex ''prep.joblib'' Map.empty)"

text \<open>A one-row table whose gender and age band were not seen when fitting on the
  scenario's table.\<close>

definition table_unseen :: frame where
  "table_unseen =
     [(''Age'', NumCol [Fin 60]),
      (''Height'', NumCol [Fin 175]),
      (''Weight'', NumCol [Fin 80]),
      (''Gender'', CatCol [Some ''Other''])]"

text \<open>An inference preprocessor that loaded what \<open>fitted_ex\<close> saved.\<close>

definition inference_ex :: "error + inference_preprocessor" where
  "inference_ex =
     inference_load (InferencePreprocessor_init ''prep.joblib'') None
       (save fitted_ex ''prep.joblib'' Map.empty)"

section \<open>Properties of the dict operations\<close>

lemma dict_set_fresh: "k \<notin> set (keys d) \<Longrightarrow> dict_set d k v = d @ [(k, v)]"
  by (induction d) (auto simp: keys_def)

lemma keys_dict_set_list:
  "keys (dict_set d k v) = (if k \<in> set (keys d) then keys d else keys d @ [k])"
  by (induction d) (force simp: keys_def)+

lemma keys_dict_set: "set (keys (dict_set d k v)) = insert k (set (keys d))"
  by (auto simp: keys_dict_set_list)

lemma distinct_dict_set: "distinct (keys d) \<Longrightarrow> distinct (keys (dict_set d k v))"
  by (simp add: keys_dict_set_list)

lemma map_of_dict_set: "map_of (dict_set d k v) = (map_of d)(k \<mapsto> v)"
  by (induction d) (auto simp: fun_eq_iff)

lemma dict_get_dict_set: "dict_get (dict_set d k v) k' = (if k' = k then Inr v else dict_get d k')"
  by (simp add: dict_get_def map_of_dict_set)

section \<open>Properties of the comparator\<close>

lemma run_trainer_f1:
  "run_trainer tr Xt Xv yt yv = Inr m \<Longrightarrow> \<exists>f. dict_get m ''f1_score'' = Inr f"
  by (auto simp: run_trainer_def evaluate_def dict_get_def Let_def split: sum.splits if_splits)

text \<open>When every trainer trains, predicts and evaluates without an exception, and no
  name is stored yet, the loop appends the results in iteration order.\<close>

lemma compare_loop_ok:
  assumes "distinct (keys trainers)"
    and "set (keys trainers) \<inter> set (keys (results self)) = {}"
    and "\<forall>(name, tr) \<in> set trainers. \<exists>m. run_trainer tr Xt Xv yt yv = Inr m"
  shows "compare_loop self trainers Xt Xv yt yv =
           (None, self\<lparr>results := results self
               @ map (\<lambda>(name, tr). (name, projr (run_trainer tr Xt Xv yt yv))) trainers\<rparr>)"
  using assms
proof (induction trainers arbitrary: self)
  case Nil
  then show ?case by simp
next
  case (Cons p trainers)
  obtain name tr where p: "p = (name, tr)" by (cases p)
  from Cons.prems(3) p obtain m where m: "run_trainer tr Xt Xv yt yv = Inr m" by auto
  from Cons.prems(2) p have fresh: "name \<notin> set (keys (results self))" by (auto simp: keys_def)
  let ?self' = "self\<lparr>results := dict_set (results self) name m\<rparr>"
  have r: "results ?self' = results self @ [(name, m)]"
    using fresh by (simp add: dict_set_fresh)
  have d: "distinct (keys trainers)" using Cons.prems(1) by (simp add: keys_def)
  have i: "set (keys trainers) \<inter> set (keys (results ?self')) = {}"
    using Cons.prems(1,2) p unfolding r by (auto simp: keys_def)
  have a: "\<forall>(name, tr) \<in> set trainers. \<exists>m. run_trainer tr Xt Xv yt yv = Inr m"
    using Cons.prems(3) by simp
  show ?case
    using Cons.IH[OF d i a] by (simp add: p m r)
qed

text \<open>\<open>max\<close> returns the first element whose key is maximal: the keys before it are
  strictly smaller, the keys after it are not greater.\<close>

lemma max_loop_first_max:
  "\<exists>pre p post. (b, kb) # ps = pre @ p # post \<and> max_loop (b, kb) ps = fst p \<and>
     (\<forall>q \<in> set pre. snd q < snd p) \<and> (\<forall>q \<in> set post. snd q \<le> snd p)"
proof (induction ps arbitrary: b kb)
  case Nil
  have "(b, kb) # [] = [] @ (b, kb) # [] \<and> max_loop (b, kb) [] = fst (b, kb) \<and>
     (\<forall>q \<in> set []. snd q < snd (b, kb)) \<and> (\<forall>q \<in> set []. snd q \<le> snd (b, kb))" by simp
  then show ?case by blast
next
  case (Cons x ps)
  obtain y ky where x: "x = (y, ky)" by (cases x)
  show ?case
  proof (cases "ky > kb")
    case True
    from Cons.IH[of y ky] obtain pre p post where
      h: "(y, ky) # ps = pre @ p # post" "max_loop (y, ky) ps = fst p"
         "\<forall>q \<in> set pre. snd q < snd p" "\<forall>q \<in> set post. snd q \<le> snd p" by blast
    have "ky \<le> snd p"
    proof (cases pre)
      case Nil then show ?thesis using h(1) by auto
    next
      case (Cons a list)
      then have "a = (y, ky)" using h(1) by simp
      then show ?thesis using h(3) Cons by auto
    qed
    then have "kb < snd p" using True by simp
    moreover have "max_loop (b, kb) (x # ps) = fst p" using True x h(2) by simp
    moreover have "(b, kb) # x # ps = ((b, kb) # pre) @ p # post" using h(1) x by simp
    ultimately have "(b, kb) # x # ps = ((b, kb) # pre) @ p # post \<and> max_loop (b, kb) (x # ps) = fst p \<and>
        (\<forall>q \<in> set ((b, kb) # pre). snd q < snd p) \<and> (\<forall>q \<in> set post. snd q \<le> snd p)"
      using h(3,4) by auto
    then show ?thesis by blast
  next
    case False
    from Cons.IH[of b kb] obtain pre p post where
      h: "(b, kb) # ps = pre @ p # post" "max_loop (b, kb) ps = fst p"
         "\<forall>q \<in> set pre. snd q < snd p" "\<forall>q \<in> set post. snd q \<le> snd p" by blast
    show ?thesis
    proof (cases pre)
      case Nil
      then have pb: "p = (b, kb)" "ps = post" using h(1) by auto
      have ml: "max_loop (b, kb) (x # ps) = fst p" using False x h(2) by simp
      have "(b, kb) # x # ps = [] @ p # ((y, ky) # post) \<and> max_loop (b, kb) (x # ps) = fst p \<and>
        (\<forall>q \<in> set []. snd q < snd p) \<and> (\<forall>q \<in> set ((y, ky) # post). snd q \<le> snd p)"
        using h(4) False x pb ml by auto
      then show ?thesis by blast
    next
      case (Cons a list)
      then have a: "a = (b, kb)" "ps = list @ p # post" using h(1) by auto
      have ml: "max_loop (b, kb) (x # ps) = fst p" using False x h(2) by simp
      have "kb < snd p" using h(3) Cons a by auto
      then have "(b, kb) # x # ps = ((b, kb) # (y, ky) # list) @ p # post \<and>
        max_loop (b, kb) (x # ps) = fst p \<and>
        (\<forall>q \<in> set ((b, kb) # (y, ky) # list). snd q < snd p) \<and> (\<forall>q \<in> set post. snd q \<le> snd p)"
        using h(3,4) False x a Cons ml by auto
      then show ?thesis by blast
    qed
  qed
qed

lemma with_keys_ok:
  "\<forall>x \<in> set xs. key x = Inr (k x) \<Longrightarrow> with_keys key xs = Inr (map (\<lambda>x. (x, k x)) xs)"
  by (induction xs) auto

lemma with_keys_map:
  "\<forall>x \<in> set xs. key (h x) = Inr (k x) \<Longrightarrow>
     with_keys key (map h xs) = Inr (map (\<lambda>x. (h x, k x)) xs)"
  by (induction xs) auto

lemma map_of_distinct_lookup:
  "distinct (map fst xs) \<Longrightarrow> (n, t) \<in> set xs \<Longrightarrow> map_of (map (\<lambda>(n, t). (n, g t)) xs) n = Some (g t)"
  by (induction xs) (auto simp: rev_image_eqI)

lemmas metric_defs = evaluate_def accuracy_score_def precision_score_def recall_score_def f1_score_def
  weighted_average_def unique_labels_def count_pairs_def true_sum_def true_pos_def pred_sum_def
  ratio_def class_f1_def class_precision_def class_recall_def confusion_matrix_def Let_def

lemmas compare_defs = compare_def ModelComparator_init_def trainers_ABC_def trainers_Z_def
  const_trainer_def run_trainer_def y_valid_ex_def py_max_def f1_key_def dict_get_def keys_def

section \<open>Claims about the comparator and the evaluator\<close>

text \<open>
  C5, as stated, fails on a comparator that is used twice. \<open>compare\<close> never clears
  \<open>self.results\<close>, and \<open>max\<close> ranges over all of it: after a first call with the
  single trainer Z (F1 = 1), a second call with the mapping A, B, C (F1 = 0.8, 0.9, 0.9)
  returns Z, which is no entry of the mapping it was given.
\<close>

theorem compare_reused_selects_stale_entry:
  "fst (compare (snd (compare ModelComparator_init trainers_Z () () [] y_valid_ex))
          trainers_ABC () () [] y_valid_ex)
     = Inr (''Z'', [(''accuracy'', 1), (''precision'', 1), (''recall'', 1), (''f1_score'', 1)])"
  by (simp add: compare_defs metric_defs)

text \<open>
  C5, amended: on a comparator that holds no result of an earlier call (as after
  construction), for a non-empty mapping with distinct names whose trainers all
  train, predict and evaluate without an exception, \<open>compare\<close> returns the name and the
  metrics of a trainer of the mapping whose F1 is maximal, and among equal maxima the
  first in iteration order: every entry before it has a strictly smaller F1, every
  entry after it has an F1 that is not greater. For the mapping A, B, C with F1 scores
  0.8, 0.9, 0.9 the result is B.
\<close>

theorem compare_selects_first_maximal_f1:
  assumes fresh: "results self = []"
    and ne: "trainers \<noteq> []"
    and dist: "distinct (keys trainers)"
    and ok: "\<forall>(name, tr) \<in> set trainers. \<exists>m. run_trainer tr X_train X_valid y_train y_valid = Inr m"
  shows "\<exists>pre name tr post m f.
           trainers = pre @ (name, tr) # post \<and>
           run_trainer tr X_train X_valid y_train y_valid = Inr m \<and>
           dict_get m ''f1_score'' = Inr f \<and>
           fst (compare self trainers X_train X_valid y_train y_valid) = Inr (name, m) \<and>
           (\<forall>(name', tr') \<in> set pre. \<exists>m' f'.
               run_trainer tr' X_train X_valid y_train y_valid = Inr m' \<and>
               dict_get m' ''f1_score'' = Inr f' \<and> f' < f) \<and>
           (\<forall>(name', tr') \<in> set post. \<exists>m' f'.
               run_trainer tr' X_train X_valid y_train y_valid = Inr m' \<and>
               dict_get m' ''f1_score'' = Inr f' \<and> f' \<le> f)"
proof -
  let ?run = "\<lambda>tr. run_trainer tr X_train X_valid y_train y_valid"
  let ?M = "\<lambda>tr. projr (?run tr)"
  let ?F = "\<lambda>tr. projr (dict_get (?M tr) ''f1_score'')"
  let ?R = "map (\<lambda>(name, tr). (name, ?M tr)) trainers"
  let ?self' = "self\<lparr>results := ?R\<rparr>"
  have run: "?run tr = Inr (?M tr)" if "(name, tr) \<in> set trainers" for name tr
    using ok that by force
  have f1: "dict_get (?M tr) ''f1_score'' = Inr (?F tr)" if "(name, tr) \<in> set trainers" for name tr
    using run_trainer_f1[OF run[OF that]] by force
  have loop: "compare_loop self trainers X_train X_valid y_train y_valid = (None, ?self')"
    using compare_loop_ok[OF dist _ ok, of self] fresh by (simp add: keys_def)
  have lookup: "dict_get ?R name = Inr (?M tr)" if "(name, tr) \<in> set trainers" for name tr
    using map_of_distinct_lookup[OF dist[unfolded keys_def] that, of ?M]
    by (simp add: dict_get_def)
  have key: "f1_key ?self' (fst p) = Inr (?F (snd p))" if "p \<in> set trainers" for p
    using lookup[of "fst p" "snd p"] f1[of "fst p" "snd p"] that by (simp add: f1_key_def)
  have keysR: "keys (results ?self') = map fst trainers"
    by (simp add: keys_def comp_def case_prod_unfold)
  have wk: "with_keys (f1_key ?self') (map fst trainers)
              = Inr (map (\<lambda>p. (fst p, ?F (snd p))) trainers)"
    using with_keys_map[of trainers "f1_key ?self'" fst "\<lambda>p. ?F (snd p)"] key by blast
  obtain p0 rest where tr0: "trainers = p0 # rest" using ne by (cases trainers) auto
  have pm: "py_max (f1_key ?self') (keys (results ?self'))
              = Inr (max_loop (fst p0, ?F (snd p0)) (map (\<lambda>p. (fst p, ?F (snd p))) rest))"
    unfolding keysR py_max_def wk using tr0 by simp
  from max_loop_first_max[of "fst p0" "?F (snd p0)" "map (\<lambda>p. (fst p, ?F (snd p))) rest"]
  obtain pre' q post' where
    split: "(fst p0, ?F (snd p0)) # map (\<lambda>p. (fst p, ?F (snd p))) rest = pre' @ q # post'"
    and best: "max_loop (fst p0, ?F (snd p0)) (map (\<lambda>p. (fst p, ?F (snd p))) rest) = fst q"
    and before: "\<forall>r \<in> set pre'. snd r < snd q"
    and after: "\<forall>r \<in> set post'. snd r \<le> snd q"
    by blast
  from split have "map (\<lambda>p. (fst p, ?F (snd p))) trainers = pre' @ q # post'"
    using tr0 by simp
  then obtain pre p post where
    tsplit: "trainers = pre @ p # post"
    and pre': "pre' = map (\<lambda>p. (fst p, ?F (snd p))) pre"
    and q: "q = (fst p, ?F (snd p))"
    and post': "post' = map (\<lambda>p. (fst p, ?F (snd p))) post"
    by (auto simp: map_eq_append_conv map_eq_Cons_conv)
  have pin: "(fst p, snd p) \<in> set trainers" using tsplit by simp
  have res: "fst (compare self trainers X_train X_valid y_train y_valid) = Inr (fst p, ?M (snd p))"
    using loop pm best q lookup[OF pin] by (simp add: compare_def)
  have b: "\<forall>(name', tr') \<in> set pre. \<exists>m' f'. ?run tr' = Inr m' \<and>
             dict_get m' ''f1_score'' = Inr f' \<and> f' < ?F (snd p)"
  proof (clarify)
    fix name' tr' assume a: "(name', tr') \<in> set pre"
    then have "(name', tr') \<in> set trainers" using tsplit by simp
    moreover have "?F tr' < ?F (snd p)" using before a pre' q by force
    ultimately show "\<exists>m' f'. ?run tr' = Inr m' \<and> dict_get m' ''f1_score'' = Inr f' \<and> f' < ?F (snd p)"
      using run f1 by blast
  qed
  have c: "\<forall>(name', tr') \<in> set post. \<exists>m' f'. ?run tr' = Inr m' \<and>
             dict_get m' ''f1_score'' = Inr f' \<and> f' \<le> ?F (snd p)"
  proof (clarify)
    fix name' tr' assume a: "(name', tr') \<in> set post"
    then have "(name', tr') \<in> set trainers" using tsplit by simp
    moreover have "?F tr' \<le> ?F (snd p)" using after a post' q by force
    ultimately show "\<exists>m' f'. ?run tr' = Inr m' \<and> dict_get m' ''f1_score'' = Inr f' \<and> f' \<le> ?F (snd p)"
      using run f1 by blast
  qed
  have "trainers = pre @ (fst p, snd p) # post \<and> ?run (snd p) = Inr (?M (snd p)) \<and>
        dict_get (?M (snd p)) ''f1_score'' = Inr (?F (snd p)) \<and>
        fst (compare self trainers X_train X_valid y_train y_valid) = Inr (fst p, ?M (snd p))"
    using tsplit run[OF pin] f1[OF pin] res by simp
  with b c show ?thesis by blast
qed

theorem compare_selects_first_maximal_f1_witness:
  "results ModelComparator_init = [] \<and> trainers_ABC \<noteq> [] \<and> distinct (keys trainers_ABC) \<and>
   fst (compare ModelComparator_init trainers_ABC () () [] y_valid_ex)
     = Inr (''B'', [(''accuracy'', 5 / 6), (''precision'', 1), (''recall'', 5 / 6), (''f1_score'', 9 / 10)]) \<and>
   map (\<lambda>(name, tr). (name, map_sum id (\<lambda>m. dict_get m ''f1_score'') (run_trainer tr () () [] y_valid_ex)))
       trainers_ABC
     = [(''A'', Inr (Inr (4 / 5))), (''B'', Inr (Inr (9 / 10))), (''C'', Inr (Inr (9 / 10)))]"
  using compare_selects_first_maximal_f1 [of ModelComparator_init trainers_ABC "()" "()" "[]" y_valid_ex]
  by (simp add: compare_defs metric_defs)

text \<open>
  C7, as stated, fails on a comparator that already holds results: called with the
  empty mapping after a call with A, B, C, \<open>compare\<close> raises nothing and returns the
  best stored entry, B.
\<close>

theorem compare_empty_on_reused_comparator:
  "fst (compare (snd (compare ModelComparator_init trainers_ABC () () [] y_valid_ex)) [] () () [] y_valid_ex)
     = Inr (''B'', [(''accuracy'', 5 / 6), (''precision'', 1), (''recall'', 5 / 6), (''f1_score'', 9 / 10)])"
  by (simp add: compare_defs metric_defs)

text \<open>
  C7, amended: on a comparator that holds no result of an earlier call, \<open>compare\<close>
  with the empty mapping fails with the \<open>ValueError\<close> that \<open>max\<close> raises on an empty
  dict, and leaves the comparator as it was.
\<close>

theorem compare_empty_fails_without_results:
  "results self = [] \<Longrightarrow> compare self [] X_train X_valid y_train y_valid = (Inl ValueError, self)"
  by (simp add: compare_def py_max_def keys_def)

theorem compare_empty_fails_without_results_witness:
  "results ModelComparator_init = [] \<and>
   compare ModelComparator_init [] () () [] y_valid_ex = (Inl ValueError, ModelComparator_init)"
  using compare_empty_fails_without_results [of ModelComparator_init "()" "()" "[]" y_valid_ex]
  by (simp add: ModelComparator_init_def)

text \<open>
  C9, as stated, fails: the dict that \<open>evaluate\<close> returns for \<open>[0, 1, 1]\<close> and
  \<open>[0, 1, 0]\<close> has the four keys of the scalar metrics and no other; the confusion
  matrix is not part of it.
\<close>

theorem evaluate_returns_only_scalars:
  "map_sum id (\<lambda>(m, records). keys m) (evaluate [0, 1, 1] [0, 1, 0]) =
     Inr [''accuracy'', ''precision'', ''recall'', ''f1_score'']"
  by (simp add: evaluate_def keys_def Let_def)

text \<open>
  C9, amended: for non-empty label vectors of equal length \<open>evaluate\<close> returns the dict of the
  four scalar metrics (accuracy and the weighted precision, recall and F1); the
  confusion matrix is computed and written to the log, not returned. For
  \<open>[0, 1, 1]\<close> and \<open>[0, 1, 0]\<close> the accuracy is 2/3 and the logged matrix is the
  2 by 2 matrix \<open>[[1, 0], [1, 1]]\<close>, with exactly one non-zero entry off the diagonal.
\<close>

theorem evaluate_metrics_and_logged_matrix:
  "(length y_true = length y_pred \<and> y_true \<noteq> [] \<longrightarrow>
      evaluate y_true y_pred =
        Inr ([(''accuracy'', accuracy_score y_true y_pred),
              (''precision'', precision_score y_true y_pred),
              (''recall'', recall_score y_true y_pred),
              (''f1_score'', f1_score y_true y_pred)],
             [LogMetrics [(''accuracy'', accuracy_score y_true y_pred),
                          (''precision'', precision_score y_true y_pred),
                          (''recall'', recall_score y_true y_pred),
                          (''f1_score'', f1_score y_true y_pred)],
              LogConfusionMatrix (confusion_matrix y_true y_pred)]))
   \<and> accuracy_score [0, 1, 1] [0, 1, 0] = 2 / 3
   \<and> confusion_matrix [0, 1, 1] [0, 1, 0] = [[1, 0], [1, 1]]
   \<and> filter (\<lambda>n. n \<noteq> 0) (off_diagonal (confusion_matrix [0, 1, 1] [0, 1, 0])) = [1]"
  by (simp add: metric_defs off_diagonal_def)

theorem evaluate_metrics_and_logged_matrix_witness:
  "length [0, 1, 1 :: int] = length [0, 1, 0 :: int] \<and> [0, 1, 1 :: int] \<noteq> [] \<and>
   evaluate [0, 1, 1] [0, 1, 0] =
     Inr ([(''accuracy'', 2 / 3), (''precision'', 5 / 6), (''recall'', 2 / 3), (''f1_score'', 2 / 3)],
          [LogMetrics [(''accuracy'', 2 / 3), (''precision'', 5 / 6), (''recall'', 2 / 3),
                       (''f1_score'', 2 / 3)],
           LogConfusionMatrix [[1, 0], [1, 1]]])"
  using evaluate_metrics_and_logged_matrix [of "[0, 1, 1]" "[0, 1, 0]"]
  by (simp add: metric_defs)

lemmas prep_defs = fit_def transform_def inference_transform_def inference_fit_def check_fitted_def
  add_derived_def bmi_series_def cut_age_def dict_get_def age_group_def select_number_def
  select_not_number_def default_settings_def ct_fit_def ct_transform_def Let_def fit_categories_def
  get_feature_names_out_def fit_scaler_def TrainPreprocessor_init_def InferencePreprocessor_init_def
  one_hot_names_def category_str_def one_hot_def indicator_def DataFrame_def keys_def
  save_def load_def

lemmas table_defs = table_ex_def table_unlabelled_def table_metres_def table_no_weight_def
  table_no_height_def table_no_age_def table_unseen_def

section \<open>Claims about the preprocessors\<close>

text \<open>
  C3: a preprocessor whose \<open>fitted\<close> flag is false (as it is from construction until
  \<open>fit\<close> or \<open>load\<close> completes) raises the not-fitted error on \<open>transform\<close>, for every
  table, before it touches the table. The error is the \<open>RuntimeError\<close> of
  \<open>_check_fitted\<close>; this holds for the training and for the inference preprocessor.
\<close>

theorem transform_before_fit_raises:
  assumes "\<not> fitted self" and "\<not> fitted iself"
  shows "transform self data =
           (Inl (RuntimeError ''Preprocessor must be fitted before calling transform().''), data)
       \<and> inference_transform iself data =
           (Inl (RuntimeError ''Preprocessor must be fitted before calling transform().''), data)"
  using assms by (simp add: transform_def inference_transform_def check_fitted_def)

theorem transform_before_fit_raises_witness:
  "\<not> fitted TrainPreprocessor_init \<and> \<not> fitted (InferencePreprocessor_init ''prep.joblib'') \<and>
   transform TrainPreprocessor_init table_ex =
     (Inl (RuntimeError ''Preprocessor must be fitted before calling transform().''), table_ex) \<and>
   inference_transform (InferencePreprocessor_init ''prep.joblib'') table_ex =
     (Inl (RuntimeError ''Preprocessor must be fitted before calling transform().''), table_ex)"
  using transform_before_fit_raises [of TrainPreprocessor_init "InferencePreprocessor_init ''prep.joblib''" table_ex]
  by (simp add: TrainPreprocessor_init_def InferencePreprocessor_init_def)

text \<open>
  C8, as stated, fails: for the scenario's table, with heights 170 and 160, \<open>fit\<close>
  writes the BMI column \<open>[70 / 170\<^sup>2, 95 / 160\<^sup>2]\<close>, about 0.0024 and 0.0037, which is
  not within 0.01 of 24.22 and 37.11.
\<close>

theorem fit_bmi_of_centimetre_heights:
  "dict_get (snd (snd (fit default_settings TrainPreprocessor_init table_ex))) ''BMI''
     = Inr (NumCol [Fin (7 / 2890), Fin (19 / 5120)])
   \<and> \<bar>7 / 2890 - 2422 / 100\<bar> > (1 / 100 :: real)
   \<and> \<bar>19 / 5120 - 3711 / 100\<bar> > (1 / 100 :: real)"
  by (simp add: prep_defs table_defs)

text \<open>
  C8, amended: BMI is weight divided by the square of the height as given, with no
  change of unit. Fitting on the scenario's table gives the BMI column
  \<open>[0.002422, 0.003711]\<close> within \<open>10\<^sup>-\<^sup>6\<close>; with the heights in metres (1.70 and 1.60)
  it gives \<open>[24.22, 37.11]\<close> within 0.01. In both cases the Age_Group column maps 25 to
  Young and 40 to Adult.
\<close>

theorem fit_derived_columns_of_scenario:
  "fst (fit default_settings TrainPreprocessor_init table_ex) = None
   \<and> dict_get (snd (snd (fit default_settings TrainPreprocessor_init table_ex))) ''BMI''
       = Inr (NumCol [Fin (70 / 170\<^sup>2), Fin (95 / 160\<^sup>2)])
   \<and> \<bar>70 / 170\<^sup>2 - 2422 / 1000000\<bar> \<le> (1 / 1000000 :: real)
   \<and> \<bar>95 / 160\<^sup>2 - 3711 / 1000000\<bar> \<le> (1 / 1000000 :: real)
   \<and> dict_get (snd (snd (fit default_settings TrainPreprocessor_init table_ex))) ''Age_Group''
       = Inr (CatCol [Some ''Young'', Some ''Adult''])
   \<and> fst (fit default_settings TrainPreprocessor_init table_metres) = None
   \<and> dict_get (snd (snd (fit default_settings TrainPreprocessor_init table_metres))) ''BMI''
       = Inr (NumCol [Fin (70 / (17 / 10)\<^sup>2), Fin (95 / (16 / 10)\<^sup>2)])
   \<and> \<bar>70 / (17 / 10)\<^sup>2 - 2422 / 100\<bar> \<le> (1 / 100 :: real)
   \<and> \<bar>95 / (16 / 10)\<^sup>2 - 3711 / 100\<bar> \<le> (1 / 100 :: real)
   \<and> dict_get (snd (snd (fit default_settings TrainPreprocessor_init table_metres))) ''Age_Group''
       = Inr (CatCol [Some ''Young'', Some ''Adult''])"
  by (simp add: prep_defs table_defs power2_eq_square)


text \<open>The derived-feature step on a table with numeric Weight, Height and Age.\<close>

lemma add_derived_numeric:
  assumes "map_of data ''Weight'' = Some (NumCol ws)"
    and "map_of data ''Height'' = Some (NumCol hs)"
    and "map_of data ''Age'' = Some (NumCol ages)"
  shows "add_derived data =
           (None, dict_set (dict_set data ''BMI'' (NumCol (map2 float_div ws (map float_sq hs))))
                    ''Age_Group'' (CatCol (map age_group ages)))"
  using assms
  by (simp add: add_derived_def bmi_series_def cut_age_def dict_get_def map_of_dict_set Let_def)

lemma fit_table: "snd (snd (fit cfg self data)) = snd (add_derived data)"
  by (simp add: fit_def Let_def split: prod.splits option.splits sum.splits)

lemma transform_table: "fitted self \<Longrightarrow> snd (transform self data) = snd (add_derived data)"
  by (simp add: transform_def check_fitted_def DataFrame_def split: prod.splits option.splits sum.splits)

lemma inference_transform_table:
  "fitted self \<Longrightarrow> snd (inference_transform self data) = snd (add_derived data)"
  by (simp add: inference_transform_def check_fitted_def DataFrame_def
      split: prod.splits option.splits sum.splits)

text \<open>
  C10, as stated, fails for the inference preprocessor's \<open>fit\<close>, which only logs a
  warning: the table passed in is unchanged and has neither a BMI nor an Age_Group
  column afterwards.
\<close>

theorem inference_fit_leaves_table:
  "snd (snd (inference_fit (InferencePreprocessor_init ''prep.joblib'') table_unlabelled)) = table_unlabelled
   \<and> dict_get table_unlabelled ''BMI'' = Inl (KeyError ''BMI'')
   \<and> dict_get table_unlabelled ''Age_Group'' = Inl (KeyError ''Age_Group'')"
  by (simp add: inference_fit_def table_unlabelled_def dict_get_def)

text \<open>
  C10, amended: on a table with numeric Weight, Height and Age columns, the training
  preprocessor's \<open>fit\<close>, and \<open>transform\<close> of a fitted training or inference
  preprocessor, leave the caller's table with the BMI and Age_Group columns set
  (overwritten when present, appended otherwise) and every other column as it was;
  this holds also when the call goes on to raise. The scaled and encoded features are
  only in the returned table. The inference preprocessor's \<open>fit\<close> leaves the table
  untouched.
\<close>

theorem derived_columns_written_in_place:
  assumes "map_of data ''Weight'' = Some (NumCol ws)"
    and "map_of data ''Height'' = Some (NumCol hs)"
    and "map_of data ''Age'' = Some (NumCol ages)"
    and "fitted self" and "fitted iself"
    and "data' = dict_set (dict_set data ''BMI'' (NumCol (map2 float_div ws (map float_sq hs))))
                   ''Age_Group'' (CatCol (map age_group ages))"
  shows "snd (snd (fit cfg self0 data)) = data'
       \<and> snd (transform self data) = data'
       \<and> snd (inference_transform iself data) = data'
       \<and> snd (snd (inference_fit iself data)) = data
       \<and> map_of data' ''BMI'' = Some (NumCol (map2 float_div ws (map float_sq hs)))
       \<and> map_of data' ''Age_Group'' = Some (CatCol (map age_group ages))
       \<and> (\<forall>c. c \<noteq> ''BMI'' \<and> c \<noteq> ''Age_Group'' \<longrightarrow> map_of data' c = map_of data c)"
  using assms add_derived_numeric[OF assms(1-3)]
  by (simp add: fit_table transform_table inference_transform_table inference_fit_def map_of_dict_set)

theorem derived_columns_written_in_place_witness:
  "map_of table_unlabelled ''Weight'' = Some (NumCol [Fin 70, Fin 95])
   \<and> map_of table_unlabelled ''Height'' = Some (NumCol [Fin 170, Fin 160])
   \<and> map_of table_unlabelled ''Age'' = Some (NumCol [Fin 25, Fin 40])
   \<and> fitted fitted_ex \<and> fitted (projr inference_ex)
   \<and> snd (snd (fit default_settings TrainPreprocessor_init table_unlabelled))
       = table_unlabelled @ [(''BMI'', NumCol [Fin (7 / 2890), Fin (19 / 5120)]),
                             (''Age_Group'', CatCol [Some ''Young'', Some ''Adult''])]
   \<and> snd (transform fitted_ex table_unlabelled)
       = table_unlabelled @ [(''BMI'', NumCol [Fin (7 / 2890), Fin (19 / 5120)]),
                             (''Age_Group'', CatCol [Some ''Young'', Some ''Adult''])]
   \<and> snd (inference_transform (projr inference_ex) table_unlabelled)
       = table_unlabelled @ [(''BMI'', NumCol [Fin (7 / 2890), Fin (19 / 5120)]),
                             (''Age_Group'', CatCol [Some ''Young'', Some ''Adult''])]"
  using derived_columns_written_in_place [of table_unlabelled "[Fin 70, Fin 95]" "[Fin 170, Fin 160]"
      "[Fin 25, Fin 40]" fitted_ex "projr inference_ex" _ default_settings TrainPreprocessor_init,
      OF _ _ _ _ _ refl]
  by (simp add: fitted_ex_def inference_ex_def inference_load_def prep_defs table_defs)

text \<open>
  C6, as stated, fails: on the scenario's table without its label column \<open>fit\<close> raises
  nothing and leaves the preprocessor fitted.
\<close>

theorem fit_without_label_succeeds:
  "fst (fit default_settings TrainPreprocessor_init table_unlabelled) = None
   \<and> dict_get table_unlabelled (target_column default_settings) = Inl (KeyError ''NObeyesdad'')
   \<and> fitted (fst (snd (fit default_settings TrainPreprocessor_init table_unlabelled)))"
  by (simp add: prep_defs table_defs)

text \<open>Lookups behind the derived-feature step.\<close>

lemma dict_get_missing: "k \<notin> set (keys d) \<Longrightarrow> dict_get d k = Inl (KeyError k)"
  by (simp add: dict_get_def keys_def map_of_eq_None_iff[THEN iffD2])

lemma dict_get_present: "k \<in> set (keys d) \<Longrightarrow> \<exists>v. dict_get d k = Inr v"
  by (cases "map_of d k") (auto simp: dict_get_def keys_def map_of_eq_None_iff)

lemma fit_error_keeps_flag:
  "fst (fit cfg self data) = Some e \<Longrightarrow> fitted (fst (snd (fit cfg self data))) = fitted self"
  by (auto simp: fit_def Let_def split: prod.splits option.splits sum.splits)

lemma fit_add_derived_error:
  "fst (add_derived data) = Some e \<Longrightarrow> fst (fit cfg self data) = Some e"
  by (auto simp: fit_def split: prod.splits option.splits)

lemma add_derived_no_weight:
  "''Weight'' \<notin> set (keys data) \<Longrightarrow> fst (add_derived data) = Some (KeyError ''Weight'')"
  by (simp add: add_derived_def bmi_series_def dict_get_missing)

lemma add_derived_no_height:
  "''Weight'' \<in> set (keys data) \<Longrightarrow> ''Height'' \<notin> set (keys data) \<Longrightarrow>
     fst (add_derived data) = Some (KeyError ''Height'')"
  using dict_get_present[of "''Weight''" data]
  by (auto simp: add_derived_def bmi_series_def dict_get_missing)

lemma add_derived_no_age:
  assumes "map_of data ''Weight'' = Some (NumCol ws)" and "map_of data ''Height'' = Some (NumCol hs)"
    and "''Age'' \<notin> set (keys data)"
  shows "fst (add_derived data) = Some (KeyError ''Age'')"
proof -
  have "''Age'' \<notin> set (keys (dict_set data ''BMI'' (NumCol (map2 float_div ws (map float_sq hs)))))"
    using assms(3) by (simp add: keys_dict_set)
  then have "cut_age (dict_set data ''BMI'' (NumCol (map2 float_div ws (map float_sq hs))))
               = Inl (KeyError ''Age'')"
    by (simp add: cut_age_def dict_get_missing)
  then show ?thesis
    using assms(1,2)
    by (simp add: add_derived_def bmi_series_def dict_get_def Let_def)
qed

lemma add_derived_string_arithmetic:
  assumes "map_of data ''Weight'' = Some w" and "map_of data ''Height'' = Some h"
    and "\<not> is_numeric w \<or> \<not> is_numeric h"
  shows "fst (add_derived data) = Some TypeError"
  using assms
  by (cases w; cases h) (auto simp: add_derived_def bmi_series_def dict_get_def)

text \<open>
  C6, amended: when Weight, Height or Age is missing, \<open>fit\<close> fails and the \<open>fitted\<close>
  flag keeps its value. The exception is the \<open>KeyError\<close> of the first missing column
  in the order Weight, Height, Age, unless Weight or Height is present as a column of
  strings, in which case the BMI arithmetic raises \<open>TypeError\<close> before Age is looked
  up. The absence of the label column does not make \<open>fit\<close> fail.
\<close>

theorem fit_missing_raw_column:
  "(''Weight'' \<notin> set (keys data) \<longrightarrow> fst (fit cfg self data) = Some (KeyError ''Weight''))
   \<and> (''Weight'' \<in> set (keys data) \<and> ''Height'' \<notin> set (keys data)
        \<longrightarrow> fst (fit cfg self data) = Some (KeyError ''Height''))
   \<and> (map_of data ''Weight'' = Some (NumCol ws) \<and> map_of data ''Height'' = Some (NumCol hs)
        \<and> ''Age'' \<notin> set (keys data)
        \<longrightarrow> fst (fit cfg self data) = Some (KeyError ''Age''))
   \<and> (''Weight'' \<notin> set (keys data) \<or> ''Height'' \<notin> set (keys data) \<or> ''Age'' \<notin> set (keys data)
        \<longrightarrow> (\<exists>e. fst (fit cfg self data) = Some e
                \<and> e \<in> {KeyError ''Weight'', KeyError ''Height'', KeyError ''Age'', TypeError})
            \<and> fitted (fst (snd (fit cfg self data))) = fitted self)"
proof -
  have a: "''Weight'' \<notin> set (keys data) \<Longrightarrow> fst (fit cfg self data) = Some (KeyError ''Weight'')"
    by (rule fit_add_derived_error[OF add_derived_no_weight])
  have b: "''Weight'' \<in> set (keys data) \<Longrightarrow> ''Height'' \<notin> set (keys data) \<Longrightarrow>
             fst (fit cfg self data) = Some (KeyError ''Height'')"
    by (rule fit_add_derived_error[OF add_derived_no_height])
  have c: "map_of data ''Weight'' = Some (NumCol ws') \<Longrightarrow> map_of data ''Height'' = Some (NumCol hs') \<Longrightarrow>
             ''Age'' \<notin> set (keys data) \<Longrightarrow> fst (fit cfg self data) = Some (KeyError ''Age'')" for ws' hs'
    by (rule fit_add_derived_error[OF add_derived_no_age])
  have d: "\<exists>e. fst (fit cfg self data) = Some e
             \<and> e \<in> {KeyError ''Weight'', KeyError ''Height'', KeyError ''Age'', TypeError}"
    if miss: "''Weight'' \<notin> set (keys data) \<or> ''Height'' \<notin> set (keys data) \<or> ''Age'' \<notin> set (keys data)"
  proof (cases "''Weight'' \<in> set (keys data)")
    case False
    then show ?thesis using a by simp
  next
    case w: True
    show ?thesis
    proof (cases "''Height'' \<in> set (keys data)")
      case False
      then show ?thesis using b w by simp
    next
      case h: True
      from w obtain wc where wc: "map_of data ''Weight'' = Some wc"
        by (cases "map_of data ''Weight''") (auto simp: keys_def map_of_eq_None_iff)
      from h obtain hc where hc: "map_of data ''Height'' = Some hc"
        by (cases "map_of data ''Height''") (auto simp: keys_def map_of_eq_None_iff)
      show ?thesis
      proof (cases "is_numeric wc \<and> is_numeric hc")
        case True
        then obtain ws' hs' where "wc = NumCol ws'" "hc = NumCol hs'"
          by (cases wc; cases hc) auto
        then show ?thesis using c[of ws' hs'] wc hc miss w h by simp
      next
        case False
        then show ?thesis
          using fit_add_derived_error[OF add_derived_string_arithmetic[OF wc hc]] by simp
      qed
    qed
  qed
  show ?thesis
    using a b c[of ws hs] d fit_error_keeps_flag[of cfg self data] by blast
qed

theorem fit_missing_raw_column_witness:
  "''Weight'' \<notin> set (keys table_no_weight)
   \<and> fst (fit default_settings TrainPreprocessor_init table_no_weight) = Some (KeyError ''Weight'')
   \<and> ''Weight'' \<in> set (keys table_no_height) \<and> ''Height'' \<notin> set (keys table_no_height)
   \<and> fst (fit default_settings TrainPreprocessor_init table_no_height) = Some (KeyError ''Height'')
   \<and> map_of table_no_age ''Weight'' = Some (NumCol [Fin 70, Fin 95])
   \<and> map_of table_no_age ''Height'' = Some (NumCol [Fin 170, Fin 160])
   \<and> ''Age'' \<notin> set (keys table_no_age)
   \<and> fst (fit default_settings TrainPreprocessor_init table_no_age) = Some (KeyError ''Age'')
   \<and> \<not> fitted (fst (snd (fit default_settings TrainPreprocessor_init table_no_age)))"
  using fit_missing_raw_column [of table_no_weight default_settings TrainPreprocessor_init]
    fit_missing_raw_column [of table_no_height default_settings TrainPreprocessor_init]
    fit_missing_raw_column [of table_no_age default_settings TrainPreprocessor_init
      "[Fin 70, Fin 95]" "[Fin 170, Fin 160]"]
  by (simp add: table_defs keys_def TrainPreprocessor_init_def)

section \<open>Properties of fit and transform\<close>

lemma collect_map_Inr:
  "collect (map f xs) = Inr ys \<Longrightarrow> ys = map (\<lambda>x. projr (f x)) xs \<and> (\<forall>x \<in> set xs. \<exists>y. f x = Inr y)"
proof (induction xs arbitrary: ys)
  case Nil
  then show ?case by simp
next
  case (Cons x xs)
  then show ?case
    by (cases "f x"; cases "collect (map f xs)") auto
qed

lemma collect_map_ok:
  "\<forall>x \<in> set xs. \<exists>y. f x = Inr y \<Longrightarrow> collect (map f xs) = Inr (map (\<lambda>x. projr (f x)) xs)"
  by (induction xs) auto

lemma numeric_column_Inr: "numeric_column data c = Inr xs \<Longrightarrow> xs = num_values data c"
  by (auto simp: num_values_def split: option.splits column.splits if_splits)

lemma categorical_column_Inr: "categorical_column data c = Inr xs \<Longrightarrow> xs = cat_values data c"
  by (auto simp: cat_values_def split: option.splits column.splits)

lemma collect_numeric:
  assumes "collect (map (numeric_column data) cs) = Inr nums"
  shows "nums = map (num_values data) cs"
proof -
  from collect_map_Inr[OF assms] have n: "nums = map (\<lambda>c. projr (numeric_column data c)) cs"
    and ok: "\<forall>c \<in> set cs. \<exists>y. numeric_column data c = Inr y" by auto
  have "projr (numeric_column data c) = num_values data c" if "c \<in> set cs" for c
    using ok that numeric_column_Inr[of data c] by (metis sum.sel(2))
  then show ?thesis unfolding n by simp
qed

lemma collect_categorical:
  assumes "collect (map (categorical_column data) cs) = Inr cats"
  shows "cats = map (cat_values data) cs"
proof -
  from collect_map_Inr[OF assms] have n: "cats = map (\<lambda>c. projr (categorical_column data c)) cs"
    and ok: "\<forall>c \<in> set cs. \<exists>y. categorical_column data c = Inr y" by auto
  have "projr (categorical_column data c) = cat_values data c" if "c \<in> set cs" for c
    using ok that categorical_column_Inr[of data c] by (metis sum.sel(2))
  then show ?thesis unfolding n by simp
qed

lemma map2_map_map: "map2 f (map g xs) (map h xs) = map (\<lambda>x. f (g x) (h x)) xs"
  by (induction xs) auto

lemma ct_fit_Inr:
  assumes "ct_fit nc cc D = Inr ct"
  shows "ct = \<lparr>num_cols = nc, scalers = map (\<lambda>c. fit_scaler (num_values D c)) nc,
               cat_cols = cc, categories = map (\<lambda>c. fit_categories (cat_values D c)) cc\<rparr>"
  using assms
  by (auto simp: ct_fit_def comp_def dest!: collect_numeric collect_categorical
      split: if_splits sum.splits)

lemma ct_transform_Inr:
  assumes "ct_transform ct A = Inr arr"
    and "scalers ct = map g (num_cols ct)" and "categories ct = map h (cat_cols ct)"
  shows "arr = map (\<lambda>c. map (scale_value (g c)) (num_values A c)) (num_cols ct)
             @ concat (map (\<lambda>c. one_hot (h c) (cat_values A c)) (cat_cols ct))"
  using assms
  by (auto simp: ct_transform_def map2_map_map dest!: collect_numeric collect_categorical
      split: if_splits sum.splits)

lemma fit_success:
  assumes "fit cfg self D0 = (None, T, D)"
  shows "\<exists>ct. add_derived D0 = (None, D)
           \<and> ct_fit (fit_numeric_cols cfg D) (fit_categorical_cols cfg D) D = Inr ct
           \<and> pipeline T = Some (Fitted ct) \<and> feature_names T = Some (expected_names cfg D)
           \<and> fitted T"
proof -
  from assms obtain ct names where
    d: "add_derived D0 = (None, D)"
    and c: "ct_fit (fit_numeric_cols cfg D) (fit_categorical_cols cfg D) D = Inr ct"
    and g: "get_feature_names_out ct = Inr names"
    and t: "T = self\<lparr>pipeline := Some (Fitted ct),
                     feature_names := Some (fit_numeric_cols cfg D @ names), fitted := True\<rparr>"
    by (auto simp: fit_def Let_def fit_numeric_cols_def fit_categorical_cols_def
        split: prod.splits option.splits sum.splits)
  note ctr = ct_fit_Inr[OF c]
  have "names = concat (map (\<lambda>c. one_hot_names c (fit_categories (cat_values D c)))
                          (fit_categorical_cols cfg D))"
    using g unfolding ctr
    by (auto simp: get_feature_names_out_def map2_map_map[where g="\<lambda>x. x", simplified]
        split: if_splits)
  then show ?thesis
    using d c t by (auto simp: expected_names_def)
qed


lemma expected_lengths: "length (expected_columns cfg D A) = length (expected_names cfg D)"
  by (simp add: expected_columns_def expected_names_def length_concat comp_def
      one_hot_def one_hot_names_def)

text \<open>What \<open>transform\<close> does after a successful \<open>fit\<close>.\<close>

lemma fitted_pipeline_transform:
  assumes "fit cfg self D0 = (None, T, D)" and "pipeline_transform (pipeline T) A = Inr arr"
  shows "arr = expected_columns cfg D A"
proof -
  from fit_success[OF assms(1)] obtain ct where
    c: "ct_fit (fit_numeric_cols cfg D) (fit_categorical_cols cfg D) D = Inr ct"
    and p: "pipeline T = Some (Fitted ct)" by blast
  note ctr = ct_fit_Inr[OF c]
  have "ct_transform ct A = Inr arr" using assms(2) p by simp
  from ct_transform_Inr[OF this, of "\<lambda>c. fit_scaler (num_values D c)"
      "\<lambda>c. fit_categories (cat_values D c)"]
  show ?thesis unfolding expected_columns_def by (simp add: ctr)
qed

lemma transform_after_fit:
  assumes "fit cfg self D0 = (None, T, D)"
  shows "transform T A0 =
           (case add_derived A0 of
              (Some e, A) \<Rightarrow> (Inl e, A)
            | (None, A) \<Rightarrow>
                (case pipeline_transform (pipeline T) A of
                   Inl e \<Rightarrow> (Inl e, A)
                 | Inr arr \<Rightarrow> (Inr (zip (map Name (expected_names cfg D)) (expected_columns cfg D A)), A)))"
proof -
  from fit_success[OF assms] have f: "fitted T" and n: "feature_names T = Some (expected_names cfg D)"
    by auto
  have df: "DataFrame arr (feature_names T)
              = Inr (zip (map Name (expected_names cfg D)) (expected_columns cfg D A))"
    if "pipeline_transform (pipeline T) A = Inr arr" for A arr
    using fitted_pipeline_transform[OF assms that] expected_lengths[of cfg D A] n
    by (simp add: DataFrame_def)
  show ?thesis
    using f df
    by (auto simp: transform_def check_fitted_def split: prod.splits option.splits sum.splits)
qed

text \<open>
  C1: for a transformer fitted by \<open>fit\<close> and any two tables on which \<open>transform\<close>
  returns, the two outputs have the same number of columns under the same labels in
  the same order, whatever their row counts; the labels are the numeric columns in
  fit-time order followed by the one-hot columns in fit-time category order, and the
  contents stand in that order too: the scaled numeric columns, then the one-hot
  columns.
\<close>

theorem transform_column_order:
  assumes "fit cfg self D0 = (None, T, D)"
    and "transform T A0 = (Inr outA, A)"
    and "transform T B0 = (Inr outB, B)"
  shows "map fst outA = map Name (expected_names cfg D)
       \<and> map fst outB = map fst outA
       \<and> length outB = length outA
       \<and> map snd outA = expected_columns cfg D A
       \<and> map snd outB = expected_columns cfg D B"
proof -
  have a: "outA = zip (map Name (expected_names cfg D)) (expected_columns cfg D A)"
    using assms(2) unfolding transform_after_fit[OF assms(1)]
    by (auto split: prod.splits option.splits sum.splits)
  have b: "outB = zip (map Name (expected_names cfg D)) (expected_columns cfg D B)"
    using assms(3) unfolding transform_after_fit[OF assms(1)]
    by (auto split: prod.splits option.splits sum.splits)
  show ?thesis
    unfolding a b using expected_lengths[of cfg D A] expected_lengths[of cfg D B] by simp
qed


lemma transform_succeeds:
  assumes f: "fit cfg self D0 = (None, T, D)"
    and rows: "nrows A \<noteq> 0"
    and numeric: "\<forall>c \<in> set (fit_numeric_cols cfg D). \<exists>xs. map_of A c = Some (NumCol xs) \<and> \<not> list_ex is_inf xs"
    and categorical: "\<forall>c \<in> set (fit_categorical_cols cfg D). \<exists>xs. map_of A c = Some (CatCol xs)"
  shows "pipeline_transform (pipeline T) A = Inr (expected_columns cfg D A)"
proof -
  from fit_success[OF f] obtain ct where
    c: "ct_fit (fit_numeric_cols cfg D) (fit_categorical_cols cfg D) D = Inr ct"
    and p: "pipeline T = Some (Fitted ct)" by blast
  note ctr = ct_fit_Inr[OF c]
  have nc: "num_cols ct = fit_numeric_cols cfg D" and cc: "cat_cols ct = fit_categorical_cols cfg D"
    by (simp_all add: ctr)
  have "\<forall>c \<in> set (num_cols ct). \<exists>y. numeric_column A c = Inr y"
    using numeric unfolding nc by fastforce
  from collect_map_ok[OF this] obtain nums where
    n: "collect (map (numeric_column A) (num_cols ct)) = Inr nums" by blast
  have "\<forall>c \<in> set (cat_cols ct). \<exists>y. categorical_column A c = Inr y"
    using categorical unfolding cc by fastforce
  from collect_map_ok[OF this] obtain cats where
    k: "collect (map (categorical_column A) (cat_cols ct)) = Inr cats" by blast
  have "\<exists>arr. ct_transform ct A = Inr arr"
    using rows n k by (simp add: ct_transform_def)
  then obtain arr where "pipeline_transform (pipeline T) A = Inr arr" using p by auto
  then show ?thesis using fitted_pipeline_transform[OF f] by simp
qed

lemma one_hot_cell:
  "k < length cats \<Longrightarrow> r < length xs \<Longrightarrow> one_hot cats xs ! k ! r = indicator (cats ! k) (xs ! r)"
  by (simp add: one_hot_def)

lemma one_hot_unseen:
  assumes "r < length xs" and "xs ! r \<notin> set cats" and "col \<in> set (one_hot cats xs)"
  shows "col ! r = Fin 0"
  using assms by (auto simp: one_hot_def indicator_def)

text \<open>
  C4: for a transformer fitted by \<open>fit\<close> and a table that has at least one row and
  every fit-time column with its fit-time kind (numeric cells not infinite),
  \<open>transform\<close> does not raise, whatever the values in the categorical columns. A cell
  whose value is not among the categories learned at fit time gets 0 in every one-hot
  column of its column; every other cell is encoded as usual, 1 in the column of its
  own category and 0 elsewhere, and the numeric columns are scaled as usual.
\<close>

theorem unseen_category_encoded_as_zeros:
  assumes f: "fit cfg self D0 = (None, T, D)"
    and d: "add_derived A0 = (None, A)"
    and rows: "nrows A \<noteq> 0"
    and numeric: "\<forall>c \<in> set (fit_numeric_cols cfg D). \<exists>xs. map_of A c = Some (NumCol xs) \<and> \<not> list_ex is_inf xs"
    and categorical: "\<forall>c \<in> set (fit_categorical_cols cfg D). \<exists>xs. map_of A c = Some (CatCol xs)"
  shows "(\<exists>out. transform T A0 = (Inr out, A)
            \<and> map fst out = map Name (expected_names cfg D)
            \<and> map snd out = expected_columns cfg D A)
       \<and> (\<forall>c \<in> set (fit_categorical_cols cfg D). \<forall>r < length (cat_values A c).
            cat_values A c ! r \<notin> set (fit_categories (cat_values D c)) \<longrightarrow>
            (\<forall>col \<in> set (one_hot (fit_categories (cat_values D c)) (cat_values A c)). col ! r = Fin 0))
       \<and> (\<forall>c \<in> set (fit_categorical_cols cfg D). \<forall>r < length (cat_values A c).
            \<forall>k < length (fit_categories (cat_values D c)).
            one_hot (fit_categories (cat_values D c)) (cat_values A c) ! k ! r
              = (if cat_values A c ! r = fit_categories (cat_values D c) ! k then Fin 1 else Fin 0))"
proof -
  have t: "transform T A0 = (Inr (zip (map Name (expected_names cfg D)) (expected_columns cfg D A)), A)"
    unfolding transform_after_fit[OF f] using d transform_succeeds[OF f rows numeric categorical]
    by simp
  have "\<exists>out. transform T A0 = (Inr out, A)
            \<and> map fst out = map Name (expected_names cfg D)
            \<and> map snd out = expected_columns cfg D A"
    unfolding t using expected_lengths[of cfg D A] by simp
  then show ?thesis
    by (auto simp: one_hot_unseen one_hot_cell indicator_def)
qed

text \<open>
  C2, amended: \<open>save\<close> writes the fitted pipeline (scaling parameters, category
  vocabularies, column selection and positional order) and nothing else; \<open>load\<close> into
  a fresh transformer restores it and sets \<open>fitted\<close>, and leaves \<open>feature_names\<close>
  unset. On every table the restored transformer returns the same values in the same
  positional column order as the original (and raises where the original raises), but
  its columns are labelled by their positions \<open>0, 1, ...\<close> in place of the feature
  names.
\<close>

theorem reload_keeps_values_not_names:
  assumes f: "fit cfg self D0 = (None, T, D)"
    and l: "load TrainPreprocessor_init path (save T path fs) = Inr T'"
  shows "pipeline T' = pipeline T \<and> fitted T' \<and> feature_names T' = None
       \<and> feature_names T = Some (expected_names cfg D)
       \<and> (transform T A0 = (Inr out, A) \<longrightarrow>
            transform T' A0 = (Inr (zip (map Pos [0 ..< length out]) (map snd out)), A)
            \<and> map snd (zip (map Pos [0 ..< length out]) (map snd out)) = map snd out
            \<and> map fst out = map Name (expected_names cfg D))
       \<and> (transform T A0 = (Inl e, A) \<longrightarrow> transform T' A0 = (Inl e, A))"
proof -
  have T': "T' = TrainPreprocessor_init\<lparr>pipeline := pipeline T, fitted := True\<rparr>"
    using l by (simp add: load_def save_def)
  have p: "pipeline T' = pipeline T" and ft: "fitted T'" and fn: "feature_names T' = None"
    unfolding T' by (simp_all add: TrainPreprocessor_init_def)
  from fit_success[OF f] have n: "feature_names T = Some (expected_names cfg D)" by auto
  have t': "transform T' A0 =
           (case add_derived A0 of
              (Some e, A) \<Rightarrow> (Inl e, A)
            | (None, A) \<Rightarrow>
                (case pipeline_transform (pipeline T) A of
                   Inl e \<Rightarrow> (Inl e, A)
                 | Inr arr \<Rightarrow> (Inr (zip (map Pos [0 ..< length arr]) arr), A)))"
    using p ft fn
    by (auto simp: transform_def check_fitted_def DataFrame_def
        split: prod.splits option.splits sum.splits)
  have ok: "transform T' A0 = (Inr (zip (map Pos [0 ..< length out]) (map snd out)), A)
            \<and> map snd (zip (map Pos [0 ..< length out]) (map snd out)) = map snd out
            \<and> map fst out = map Name (expected_names cfg D)"
    if "transform T A0 = (Inr out, A)"
  proof -
    from that obtain arr where
      d: "add_derived A0 = (None, A)" and a: "pipeline_transform (pipeline T) A = Inr arr"
      and o: "out = zip (map Name (expected_names cfg D)) (expected_columns cfg D A)"
      unfolding transform_after_fit[OF f]
      by (auto split: prod.splits option.splits sum.splits)
    have arr: "arr = expected_columns cfg D A" by (rule fitted_pipeline_transform[OF f a])
    have s: "map snd out = arr" "length out = length arr" "map fst out = map Name (expected_names cfg D)"
      unfolding o arr using expected_lengths[of cfg D A] by simp_all
    show ?thesis
      unfolding t' using d a s by simp
  qed
  have err: "transform T' A0 = (Inl e, A)" if "transform T A0 = (Inl e, A)"
    using that unfolding transform_after_fit[OF f] t'
    by (auto split: prod.splits option.splits sum.splits)
  show ?thesis using p ft fn n ok err by blast
qed

section \<open>The claims on the scenario's table\<close>

lemma sqrt_examples:
  "sqrt (225 / 4) = 15 / 2" "sqrt (625 / 4) = 25 / 2" "sqrt 25 = 5"
  "sqrt (3636649 / 8757811609600) = 1907 / 2959360"
  by (rule real_sqrt_unique; simp add: power2_eq_square)+

lemmas ex_defs = sqrt_examples fitted_ex_def reloaded_ex_def inference_ex_def inference_load_def prep_defs table_defs
  expected_names_def expected_columns_def fit_numeric_cols_def fit_categorical_cols_def
  num_values_def cat_values_def

theorem transform_column_order_witness:
  "fit default_settings TrainPreprocessor_init table_ex
     = (None, fitted_ex, snd (snd (fit default_settings TrainPreprocessor_init table_ex)))
   \<and> nrows table_unlabelled = 2 \<and> nrows table_unseen = 1
   \<and> fst (transform fitted_ex table_unlabelled)
       = Inr [(Name ''Age'', [Fin (- 1), Fin 1]), (Name ''Height'', [Fin 1, Fin (- 1)]),
              (Name ''Weight'', [Fin (- 1), Fin 1]), (Name ''BMI'', [Fin (- 1), Fin 1]),
              (Name ''Gender_Female'', [Fin 0, Fin 1]), (Name ''Gender_Male'', [Fin 1, Fin 0]),
              (Name ''Age_Group_Adult'', [Fin 0, Fin 1]), (Name ''Age_Group_Young'', [Fin 1, Fin 0])]
   \<and> map_sum id (map fst) (fst (transform fitted_ex table_unseen))
       = Inr [Name ''Age'', Name ''Height'', Name ''Weight'', Name ''BMI'', Name ''Gender_Female'',
              Name ''Gender_Male'', Name ''Age_Group_Adult'', Name ''Age_Group_Young'']
   \<and> expected_names default_settings (snd (snd (fit default_settings TrainPreprocessor_init table_ex)))
       = [''Age'', ''Height'', ''Weight'', ''BMI'', ''Gender_Female'', ''Gender_Male'',
          ''Age_Group_Adult'', ''Age_Group_Young'']"
  using transform_column_order [of default_settings TrainPreprocessor_init table_ex fitted_ex
      "snd (snd (fit default_settings TrainPreprocessor_init table_ex))"
      table_unlabelled "projr (fst (transform fitted_ex table_unlabelled))"
      "snd (transform fitted_ex table_unlabelled)"
      table_unseen "projr (fst (transform fitted_ex table_unseen))"
      "snd (transform fitted_ex table_unseen)"]
  by (simp add: ex_defs)

theorem unseen_category_encoded_as_zeros_witness:
  "fit default_settings TrainPreprocessor_init table_ex
     = (None, fitted_ex, snd (snd (fit default_settings TrainPreprocessor_init table_ex)))
   \<and> add_derived table_unseen
       = (None, table_unseen @ [(''BMI'', NumCol [Fin (16 / 6125)]), (''Age_Group'', CatCol [Some ''Senior''])])
   \<and> nrows (snd (add_derived table_unseen)) \<noteq> 0
   \<and> fit_categories (cat_values (snd (snd (fit default_settings TrainPreprocessor_init table_ex))) ''Gender'')
       = [Some ''Female'', Some ''Male'']
   \<and> fit_categories (cat_values (snd (snd (fit default_settings TrainPreprocessor_init table_ex))) ''Age_Group'')
       = [Some ''Adult'', Some ''Young'']
   \<and> fst (transform fitted_ex table_unseen)
       = Inr [(Name ''Age'', [Fin (11 / 3)]), (Name ''Height'', [Fin 2]),
              (Name ''Weight'', [Fin (- (1 / 5))]), (Name ''BMI'', [Fin (- (1646923 / 2336075))]),
              (Name ''Gender_Female'', [Fin 0]), (Name ''Gender_Male'', [Fin 0]),
              (Name ''Age_Group_Adult'', [Fin 0]), (Name ''Age_Group_Young'', [Fin 0])]"
  using unseen_category_encoded_as_zeros [of default_settings TrainPreprocessor_init table_ex fitted_ex
      "snd (snd (fit default_settings TrainPreprocessor_init table_ex))"
      table_unseen "snd (add_derived table_unseen)"]
  by (simp add: ex_defs)

text \<open>
  C2, as stated, fails: after fitting on the scenario's table, saving, and loading into
  a fresh transformer, the restored transformer labels the columns of
  \<open>transform(D)\<close> by position where the original labels them by feature name; the
  output column names are not part of the saved state.
\<close>

theorem reload_loses_column_names:
  "map_sum id (\<lambda>T'. map_sum id (map fst) (fst (transform T' table_ex))) reloaded_ex
     = Inr (Inr [Pos 0, Pos 1, Pos 2, Pos 3, Pos 4, Pos 5, Pos 6, Pos 7])
   \<and> map_sum id (map fst) (fst (transform fitted_ex table_ex))
     = Inr [Name ''Age'', Name ''Height'', Name ''Weight'', Name ''BMI'', Name ''Gender_Female'',
            Name ''Gender_Male'', Name ''Age_Group_Adult'', Name ''Age_Group_Young'']
   \<and> map_sum id feature_names reloaded_ex = Inr None"
  by (simp add: ex_defs eval_nat_numeral)

theorem reload_keeps_values_not_names_witness:
  "fit default_settings TrainPreprocessor_init table_ex
     = (None, fitted_ex, snd (snd (fit default_settings TrainPreprocessor_init table_ex)))
   \<and> load TrainPreprocessor_init ''prep.joblib'' (save fitted_ex ''prep.joblib'' Map.empty)
       = Inr \<lparr>fitted = True, pipeline = pipeline fitted_ex, feature_names = None\<rparr>
   \<and> map_sum id (map snd) (fst (transform fitted_ex table_ex))
       = Inr [[Fin (- 1), Fin 1], [Fin 1, Fin (- 1)], [Fin (- 1), Fin 1], [Fin (- 1), Fin 1],
              [Fin 0, Fin 1], [Fin 1, Fin 0], [Fin 0, Fin 1], [Fin 1, Fin 0]]
   \<and> fst (transform \<lparr>fitted = True, pipeline = pipeline fitted_ex, feature_names = None\<rparr> table_ex)
       = Inr [(Pos 0, [Fin (- 1), Fin 1]), (Pos 1, [Fin 1, Fin (- 1)]), (Pos 2, [Fin (- 1), Fin 1]),
              (Pos 3, [Fin (- 1), Fin 1]), (Pos 4, [Fin 0, Fin 1]), (Pos 5, [Fin 1, Fin 0]),
              (Pos 6, [Fin 0, Fin 1]), (Pos 7, [Fin 1, Fin 0])]"
  using reload_keeps_values_not_names [of default_settings TrainPreprocessor_init table_ex fitted_ex
      "snd (snd (fit default_settings TrainPreprocessor_init table_ex))" "''prep.joblib''" Map.empty
      "\<lparr>fitted = True, pipeline = pipeline fitted_ex, feature_names = None\<rparr>"
      table_ex "projr (fst (transform fitted_ex table_ex))" "snd (transform fitted_ex table_ex)"]
  by (simp add: ex_defs eval_nat_numeral)

end
